theory Spec2Isabelle
  imports Complex_Main
begin

section \<open>Postal-code search service\<close>

text \<open>
  A shallow embedding of \<^verbatim>\<open>src/services/search-service.js\<close> (class
  \<^verbatim>\<open>SearchService\<close>) and of the three prepared statements of
  \<^verbatim>\<open>src/database/schema.js\<close> it calls.

  Conventions of the model:
  \<^item> a JavaScript string is a \<open>string\<close>; the characters are read as ASCII, so
    \<^verbatim>\<open>toLowerCase\<close>, \<^verbatim>\<open>toUpperCase\<close> and \<^verbatim>\<open>trim\<close> act on the ASCII letters and
    the ASCII white space only;
  \<^item> a JavaScript number that holds a score is a \<open>real\<close>: the rounding of IEEE doubles
    is not modelled, and the concrete inputs below keep clear of the thresholds;
  \<^item> a nullable column is an \<open>option\<close>; a property that an object may lack
    (\<^verbatim>\<open>similarity_score\<close> on a row that was never scored) is an \<open>option\<close> too;
  \<^item> a rejected promise of the store is \<open>None\<close>; every \<^verbatim>\<open>try/catch\<close> of the
    source is the \<open>case\<close> that handles it;
  \<^item> every function that reaches the store returns the list of store calls it made, in
    order, next to its value;
  \<^item> the logger is not modelled.
\<close>

subsection \<open>Strings\<close>

definition upperLetters :: string where
  "upperLetters = ''ABCDEFGHIJKLMNOPQRSTUVWXYZ''"

definition lowerLetters :: string where
  "lowerLetters = ''abcdefghijklmnopqrstuvwxyz''"

definition toLowerCase_char :: "char \<Rightarrow> char" where
  "toLowerCase_char c =
     (case map_of (zip upperLetters lowerLetters) c of None \<Rightarrow> c | Some l \<Rightarrow> l)"

definition toUpperCase_char :: "char \<Rightarrow> char" where
  "toUpperCase_char c =
     (case map_of (zip lowerLetters upperLetters) c of None \<Rightarrow> c | Some u \<Rightarrow> u)"

definition toLowerCase :: "string \<Rightarrow> string" where
  "toLowerCase s = map toLowerCase_char s"

definition toUpperCase :: "string \<Rightarrow> string" where
  "toUpperCase s = map toUpperCase_char s"

definition isWhiteSpace :: "char \<Rightarrow> bool" where
  "isWhiteSpace c =
     (c \<in> set [CHR 0x09, CHR 0x0A, CHR 0x0B, CHR 0x0C, CHR 0x0D, CHR '' ''])"

definition trim :: "string \<Rightarrow> string" where
  "trim s = rev (dropWhile isWhiteSpace (rev (dropWhile isWhiteSpace s)))"

text \<open>\<^verbatim>\<open>s.includes(sub)\<close>: \<open>sub\<close> occurs in \<open>s\<close> as a contiguous block.\<close>

fun includes_str :: "string \<Rightarrow> string \<Rightarrow> bool" where
  "includes_str [] sub = (sub = [])"
| "includes_str (c # s) sub = (take (length sub) (c # s) = sub \<or> includes_str s sub)"

text \<open>\<^verbatim>\<open>parts.join(sep)\<close>.\<close>

fun join :: "string \<Rightarrow> string list \<Rightarrow> string" where
  "join sep [] = []"
| "join sep [p] = p"
| "join sep (p # q # ps) = p @ sep @ join sep (q # ps)"

text \<open>
  \<^verbatim>\<open>array.findIndex(pred)\<close>: the index of the first element that satisfies the
  predicate, \<open>-1\<close> when there is none.
\<close>

definition findIndex :: "('a \<Rightarrow> bool) \<Rightarrow> 'a list \<Rightarrow> int" where
  "findIndex pred xs =
     (if list_ex pred xs then int (length (takeWhile (\<lambda>x. \<not> pred x) xs)) else - 1)"

text \<open>
  Modelled from the spec: \<^verbatim>\<open>String.prototype.localeCompare\<close> is the host's
  collation, not code of the repository. The specification (4.3, step 4) reads the
  tertiary key as "postal code lexicographic ascending"; the model compares the
  character codes position by position and returns \<open>-1\<close>, \<open>0\<close> or \<open>1\<close>.
\<close>

fun localeCompare :: "string \<Rightarrow> string \<Rightarrow> int" where
  "localeCompare [] [] = 0"
| "localeCompare [] (b # t) = - 1"
| "localeCompare (a # s) [] = 1"
| "localeCompare (a # s) (b # t) =
     (if a = b then localeCompare s t
      else if (of_char a :: nat) < of_char b then - 1 else 1)"

subsection \<open>Data model\<close>

text \<open>
  A row of \<^verbatim>\<open>postal_codes\<close> joined with its country code, as the three
  \<^verbatim>\<open>SELECT pc.*, c.code as country_code\<close> statements return it. Only
  \<^verbatim>\<open>postal_code\<close> is declared \<^verbatim>\<open>NOT NULL\<close>.
\<close>

record PostalRecord =
  country_code :: string
  postal_code :: string
  place_name :: "string option"
  admin_name1 :: "string option"
  admin_code1 :: "string option"
  admin_name2 :: "string option"
  admin_code2 :: "string option"
  admin_name3 :: "string option"
  admin_code3 :: "string option"
  latitude :: "real option"
  longitude :: "real option"
  accuracy :: "int option"

text \<open>
  The same row seen as the JavaScript object the service works on: the property
  \<^verbatim>\<open>similarity_score\<close> is absent (\<open>None\<close>) until \<^verbatim>\<open>findFuzzyMatches\<close>
  assigns it.
\<close>

record ScoredCandidate = PostalRecord +
  similarity_score :: "real option"

text \<open>The object literal that \<^verbatim>\<open>formatResults\<close> builds for each row.\<close>

record FormattedRecord = PostalRecord +
  similarity_score :: real
  fullAddress :: string

record SearchQuery =
  query_country :: string
  query_postalCode :: string

record SearchResult =
  success :: bool
  error :: "string option"
  matchType :: "string option"
  result_query :: "SearchQuery option"
  results :: "FormattedRecord list"
  searchTime :: "int option"

text \<open>
  The prepared statements of \<^verbatim>\<open>getStatements()\<close>. The database engine is outside
  the repository, so the three queries are parameters of the model: each maps a country
  code and a text to the rows it returns, or to \<open>None\<close> when the query is rejected.
\<close>

record Statements =
  findExact :: "string \<Rightarrow> string \<Rightarrow> PostalRecord list option"
  findFuzzy :: "string \<Rightarrow> string \<Rightarrow> PostalRecord list option"
  findByPlace :: "string \<Rightarrow> string \<Rightarrow> PostalRecord list option"

datatype store_call =
  FindExact string string
| FindFuzzy string string
| FindByPlace string string

definition maxResults :: nat where
  "maxResults = 20"

definition withScore :: "PostalRecord \<Rightarrow> real option \<Rightarrow> ScoredCandidate" where
  "withScore r s = PostalRecord.extend r (ScoredCandidate.fields s)"

subsection \<open>Similarity scorer\<close>

text \<open>
  Modelled from the spec: \<^verbatim>\<open>levenshtein.get\<close> comes from the package
  \<^verbatim>\<open>fast-levenshtein\<close>, which is not part of the repository. The specification (4.1,
  step 2) names it the Levenshtein edit distance; the model is its usual recurrence:
  equal first characters are skipped, otherwise the distance is one more than the least
  of the three distances after a substitution, a deletion and an insertion.
\<close>

fun levenshtein :: "string \<Rightarrow> string \<Rightarrow> nat" where
  "levenshtein [] t = length t"
| "levenshtein s [] = length s"
| "levenshtein (a # s) (b # t) =
     (if a = b then levenshtein s t
      else 1 + min (levenshtein s t) (min (levenshtein s (b # t)) (levenshtein (a # s) t)))"

text \<open>
  The loop that counts the common prefix: it compares \<^verbatim>\<open>query[i].toLowerCase()\<close>
  with \<^verbatim>\<open>target[i].toLowerCase()\<close> and breaks at the first mismatch or at the end
  of the shorter string.
\<close>

fun prefixLength :: "string \<Rightarrow> string \<Rightarrow> nat" where
  "prefixLength (a # query) (b # target) =
     (if toLowerCase_char a = toLowerCase_char b then Suc (prefixLength query target) else 0)"
| "prefixLength _ _ = 0"

text \<open>
  \<^verbatim>\<open>calculateSimilarity\<close>. Its \<^verbatim>\<open>catch\<close> branch (which returns \<open>0\<close>) needs an
  exception, and no operation of the body raises one on two strings.
\<close>

definition calculateSimilarity :: "string \<Rightarrow> string \<Rightarrow> real" where
  "calculateSimilarity query target =
     (if query = target then 1.0
      else
        let maxLength = max (length query) (length target) in
        if maxLength = 0 then 1.0
        else
          let distance = levenshtein query target;
              similarity = 1 - real distance / real maxLength;
              lengthRatio = real (min (length query) (length target))
                            / real (max (length query) (length target));
              lengthBonus = lengthRatio * 0.1;
              prefixBonus = (real (prefixLength query target)
                             / real (max (length query) (length target))) * 0.2
          in min 1.0 (similarity + lengthBonus + prefixBonus))"

subsection \<open>Candidate fetcher\<close>

text \<open>
  \<^verbatim>\<open>findExactMatches\<close>, \<^verbatim>\<open>fuzzyPostalCodeSearch\<close> and \<^verbatim>\<open>placeNameSearch\<close>:
  one store call each; a rejected query is caught and counts as no rows.
\<close>

definition findExactMatches ::
  "Statements \<Rightarrow> string \<Rightarrow> string \<Rightarrow> store_call list \<times> PostalRecord list" where
  "findExactMatches st country postalCode =
     ([FindExact country postalCode],
      case findExact st country postalCode of Some rows \<Rightarrow> rows | None \<Rightarrow> [])"

definition fuzzyPostalCodeSearch ::
  "Statements \<Rightarrow> string \<Rightarrow> string \<Rightarrow> store_call list \<times> PostalRecord list" where
  "fuzzyPostalCodeSearch st country postalCode =
     ([FindFuzzy country postalCode],
      case findFuzzy st country postalCode of Some rows \<Rightarrow> rows | None \<Rightarrow> [])"

definition placeNameSearch ::
  "Statements \<Rightarrow> string \<Rightarrow> string \<Rightarrow> store_call list \<times> PostalRecord list" where
  "placeNameSearch st country postalCode =
     ([FindByPlace country postalCode],
      case findByPlace st country postalCode of Some rows \<Rightarrow> rows | None \<Rightarrow> [])"

text \<open>
  The \<^verbatim>\<open>for\<close> loop of \<^verbatim>\<open>partialPostalCodeSearch\<close>, entered with
  \<open>len = postalCode.length - 1\<close> and the empty \<open>acc\<close>: while \<open>len \<ge> minLength\<close> it
  queries the prefix of length \<open>len\<close>, appends the rows, breaks once \<open>maxResults\<close> rows
  are held, and otherwise decrements \<open>len\<close>. The value is \<open>None\<close> when a query was
  rejected: the exception leaves the loop.
\<close>

function partialLoop ::
  "Statements \<Rightarrow> string \<Rightarrow> string \<Rightarrow> int \<Rightarrow> int \<Rightarrow> PostalRecord list
     \<Rightarrow> store_call list \<times> PostalRecord list option" where
  "partialLoop st country postalCode minLength len acc =
     (if len \<ge> minLength then
        let prefix = take (nat len) postalCode in
        case findFuzzy st country prefix of
          None \<Rightarrow> ([FindFuzzy country prefix], None)
        | Some prefixResults \<Rightarrow>
            let acc' = acc @ prefixResults in
            if length acc' \<ge> maxResults then ([FindFuzzy country prefix], Some acc')
            else
              let (calls, r) = partialLoop st country postalCode minLength (len - 1) acc'
              in (FindFuzzy country prefix # calls, r)
      else ([], Some acc))"
  by pat_completeness auto
termination
  by (relation "measure (\<lambda>(st, country, postalCode, minLength, len, acc).
                   nat (len - minLength + 1))") auto

text \<open>
  \<^verbatim>\<open>partialPostalCodeSearch\<close>: the \<^verbatim>\<open>catch\<close> returns the empty list, so a
  rejected query discards the rows accumulated before it.
\<close>

definition partialPostalCodeSearch ::
  "Statements \<Rightarrow> string \<Rightarrow> string \<Rightarrow> store_call list \<times> PostalRecord list" where
  "partialPostalCodeSearch st country postalCode =
     (let minLength = max 2 \<lfloor>real (length postalCode) * 0.6\<rfloor>;
          (calls, r) = partialLoop st country postalCode minLength
                         (int (length postalCode) - 1) []
      in (calls, case r of Some rows \<Rightarrow> rows | None \<Rightarrow> []))"

subsection \<open>Match aggregator\<close>

text \<open>\<^verbatim>\<open>String(v)\<close> of a nullable text, as a template literal interpolates it.\<close>

definition stringOf :: "string option \<Rightarrow> string" where
  "stringOf v = (case v of None \<Rightarrow> ''null'' | Some s \<Rightarrow> s)"

definition recordKey :: "PostalRecord \<Rightarrow> string" where
  "recordKey r =
     country_code r @ '':'' @ postal_code r @ '':'' @ stringOf (place_name r)"

text \<open>
  The body of the inner loop of \<^verbatim>\<open>findFuzzyMatches\<close>: a row whose key was seen is
  skipped; a new one is scored against the query, and kept when the score reaches
  \<open>0.5\<close>. The state is the pair \<^verbatim>\<open>(seenRecords, allResults)\<close>.
\<close>

definition addCandidate ::
  "string \<Rightarrow> string set \<times> ScoredCandidate list \<Rightarrow> PostalRecord
     \<Rightarrow> string set \<times> ScoredCandidate list" where
  "addCandidate postalCode state r =
     (let (seenRecords, allResults) = state; key = recordKey r in
      if key \<notin> seenRecords then
        let similarity = calculateSimilarity postalCode (postal_code r) in
        (insert key seenRecords,
         if similarity \<ge> 0.5 then allResults @ [withScore r (Some similarity)]
         else allResults)
      else (seenRecords, allResults))"

text \<open>\<^verbatim>\<open>x || 0\<close> on a nullable integer.\<close>

definition orZero :: "int option \<Rightarrow> int" where
  "orZero v = (case v of None \<Rightarrow> 0 | Some n \<Rightarrow> n)"

text \<open>
  The comparator passed to \<^verbatim>\<open>sort\<close>. A missing score would make the difference
  \<^verbatim>\<open>NaN\<close> and the first test false.
\<close>

definition compareCandidates :: "ScoredCandidate \<Rightarrow> ScoredCandidate \<Rightarrow> real" where
  "compareCandidates a b =
     (case (ScoredCandidate.similarity_score a, ScoredCandidate.similarity_score b) of
        (Some sa, Some sb) \<Rightarrow>
          if \<bar>sa - sb\<bar> > 0.01 then sb - sa
          else if accuracy a \<noteq> accuracy b then real_of_int (orZero (accuracy b) - orZero (accuracy a))
          else real_of_int (localeCompare (postal_code a) (postal_code b))
      | _ \<Rightarrow>
          if accuracy a \<noteq> accuracy b then real_of_int (orZero (accuracy b) - orZero (accuracy a))
          else real_of_int (localeCompare (postal_code a) (postal_code b)))"

text \<open>
  Modelled from the spec: \<^verbatim>\<open>Array.prototype.sort\<close> is the host's, not code of the
  repository. The specification (4.3) asks for a stable ordering; the model is the stable
  insertion sort: each element in turn moves left past the elements it compares below
  (\<open>cmp x y < 0\<close>) and stops at the first one it does not. \<open>insertLeft\<close> works on the
  sorted part in reverse, nearest element first.
\<close>

fun insertLeft :: "('a \<Rightarrow> 'a \<Rightarrow> real) \<Rightarrow> 'a \<Rightarrow> 'a list \<Rightarrow> 'a list" where
  "insertLeft cmp x [] = [x]"
| "insertLeft cmp x (y # ys) =
     (if cmp x y < 0 then y # insertLeft cmp x ys else x # y # ys)"

definition sort_js :: "('a \<Rightarrow> 'a \<Rightarrow> real) \<Rightarrow> 'a list \<Rightarrow> 'a list" where
  "sort_js cmp xs = rev (foldl (\<lambda>sorted x. insertLeft cmp x sorted) [] xs)"

text \<open>
  One turn of the outer loop of \<^verbatim>\<open>findFuzzyMatches\<close>: run the strategy, then feed
  its rows to the inner loop.
\<close>

definition runStrategy ::
  "Statements \<Rightarrow> string \<Rightarrow> string
     \<Rightarrow> store_call list \<times> string set \<times> ScoredCandidate list
     \<Rightarrow> (Statements \<Rightarrow> string \<Rightarrow> string \<Rightarrow> store_call list \<times> PostalRecord list)
     \<Rightarrow> store_call list \<times> string set \<times> ScoredCandidate list" where
  "runStrategy st country postalCode state strategy =
     (let (calls, acc) = state;
          (calls', rows) = strategy st country postalCode
      in (calls @ calls', foldl (addCandidate postalCode) acc rows))"

definition strategies ::
  "(Statements \<Rightarrow> string \<Rightarrow> string \<Rightarrow> store_call list \<times> PostalRecord list) list" where
  "strategies = [fuzzyPostalCodeSearch, partialPostalCodeSearch, placeNameSearch]"

text \<open>
  \<^verbatim>\<open>findFuzzyMatches\<close>: all three strategies run, in this order, each feeding the
  rows it fetched to the inner loop; then the kept candidates are sorted and cut to
  \<^verbatim>\<open>maxResults\<close>. Its \<^verbatim>\<open>catch\<close> branch needs an exception: the strategies
  catch their own, and scoring and comparing raise none on rows of the declared types.
\<close>

definition findFuzzyMatches ::
  "Statements \<Rightarrow> string \<Rightarrow> string \<Rightarrow> store_call list \<times> ScoredCandidate list" where
  "findFuzzyMatches st country postalCode =
     (let (calls, seenRecords, allResults) =
            foldl (runStrategy st country postalCode) ([], {}, []) strategies
      in (calls, take maxResults (sort_js compareCandidates allResults)))"

subsection \<open>Output formatting\<close>

text \<open>The truth value JavaScript gives a nullable text: neither null nor empty.\<close>

definition truthy :: "string option \<Rightarrow> bool" where
  "truthy v = (case v of None \<Rightarrow> False | Some s \<Rightarrow> s \<noteq> [])"

text \<open>
  The lines shared by the cases \<^verbatim>\<open>'US'\<close>, \<^verbatim>\<open>'CA'\<close> and \<^verbatim>\<open>'AU'\<close>: push the
  region code, or else the region name, followed by the postal code.
\<close>

definition pushRegionLine :: "'a PostalRecord_scheme \<Rightarrow> string list \<Rightarrow> string list" where
  "pushRegionLine r parts =
     (if truthy (admin_code1 r) then parts @ [stringOf (admin_code1 r) @ '' '' @ postal_code r]
      else if truthy (admin_name1 r) then parts @ [stringOf (admin_name1 r) @ '' '' @ postal_code r]
      else parts)"

text \<open>
  The lines shared by the cases \<^verbatim>\<open>'GB'\<close>/\<^verbatim>\<open>'UK'\<close> and \<^verbatim>\<open>default\<close>: push
  the second and the first administrative name where they are set and differ from the
  place name.
\<close>

definition pushAdminNames :: "'a PostalRecord_scheme \<Rightarrow> string list \<Rightarrow> string list" where
  "pushAdminNames r parts =
     (let parts1 = (if truthy (admin_name2 r) \<and> admin_name2 r \<noteq> place_name r
                    then parts @ [stringOf (admin_name2 r)] else parts)
      in if truthy (admin_name1 r) \<and> admin_name1 r \<noteq> place_name r
         then parts1 @ [stringOf (admin_name1 r)] else parts1)"

text \<open>The \<^verbatim>\<open>switch (country)\<close> of \<^verbatim>\<open>constructFullAddress\<close>.\<close>

definition countryParts :: "'a PostalRecord_scheme \<Rightarrow> string list \<Rightarrow> string list" where
  "countryParts r parts =
     (let country = country_code r in
      if country = ''US'' then
        pushRegionLine r
          (if truthy (admin_name2 r)
              \<and> (\<not> truthy (place_name r)
                   \<or> \<not> includes_str (toLowerCase (stringOf (admin_name2 r)))
                                       (toLowerCase (stringOf (place_name r))))
           then parts @ [stringOf (admin_name2 r)] else parts)
      else if country = ''CA'' then pushRegionLine r parts
      else if country = ''GB'' \<or> country = ''UK'' then pushAdminNames r parts @ [postal_code r]
      else if country = ''DE'' \<or> country = ''FR'' \<or> country = ''IT'' \<or> country = ''ES'' then
        (let parts1 = (if truthy (place_name r)
                       then butlast parts @ [postal_code r @ '' '' @ stringOf (place_name r)]
                       else parts)
         in if truthy (admin_name1 r) \<and> admin_name1 r \<noteq> place_name r
            then parts1 @ [stringOf (admin_name1 r)] else parts1)
      else if country = ''AU'' then pushRegionLine r parts
      else
        (let parts1 = pushAdminNames r parts
         in if postal_code r \<noteq> [] then parts1 @ [postal_code r] else parts1))"

text \<open>
  The clean-up before joining: drop the blank parts, trim the others, and keep a part
  only at the first index that holds its lower-cased text.
\<close>

definition cleanParts :: "string list \<Rightarrow> string list" where
  "cleanParts parts =
     (let trimmed = map trim (filter (\<lambda>part. part \<noteq> [] \<and> length (trim part) > 0) parts)
      in map (\<lambda>i. trimmed ! i)
           (filter (\<lambda>i. findIndex (\<lambda>p. toLowerCase p = toLowerCase (trimmed ! i)) trimmed = int i)
              [0 ..< length trimmed]))"

text \<open>
  \<^verbatim>\<open>constructFullAddress\<close>. Its \<^verbatim>\<open>catch\<close> branch needs an exception, and the
  body raises none on a row of the declared column types.
\<close>

definition constructFullAddress :: "'a PostalRecord_scheme \<Rightarrow> string" where
  "constructFullAddress r =
     (let parts = (if truthy (place_name r) then [stringOf (place_name r)] else []);
          cleaned = cleanParts (countryParts r parts)
      in if length cleaned > 0 then join '', '' cleaned
         else if postal_code r \<noteq> [] then postal_code r
         else ''Address not available'')"

text \<open>\<^verbatim>\<open>result.similarity_score || 1.0\<close>: a missing score and the score \<open>0\<close> give \<open>1.0\<close>.\<close>

definition scoreOrOne :: "real option \<Rightarrow> real" where
  "scoreOrOne v = (case v of None \<Rightarrow> 1.0 | Some s \<Rightarrow> if s = 0 then 1.0 else s)"

definition formatResult :: "ScoredCandidate \<Rightarrow> FormattedRecord" where
  "formatResult r =
     \<lparr> country_code = country_code r,
       postal_code = postal_code r,
       place_name = place_name r,
       admin_name1 = admin_name1 r,
       admin_code1 = admin_code1 r,
       admin_name2 = admin_name2 r,
       admin_code2 = admin_code2 r,
       admin_name3 = admin_name3 r,
       admin_code3 = admin_code3 r,
       latitude = latitude r,
       longitude = longitude r,
       accuracy = accuracy r,
       similarity_score = scoreOrOne (ScoredCandidate.similarity_score r),
       fullAddress = constructFullAddress r \<rparr>"

definition formatResults :: "ScoredCandidate list \<Rightarrow> FormattedRecord list" where
  "formatResults rows = map formatResult rows"

subsection \<open>Lookup orchestrator\<close>

text \<open>
  \<^verbatim>\<open>searchPostalCode\<close>. The two readings of \<^verbatim>\<open>Date.now()\<close> are the parameters
  \<open>startTime\<close> and \<open>endTime\<close>. The rows of the exact query reach \<^verbatim>\<open>formatResults\<close>
  as the store returned them, without the property \<^verbatim>\<open>similarity_score\<close>. The outer
  \<^verbatim>\<open>catch\<close> needs an exception: the strategies catch their own, and the body raises
  none on two strings.
\<close>

definition searchPostalCode ::
  "Statements \<Rightarrow> int \<Rightarrow> int \<Rightarrow> string \<Rightarrow> string \<Rightarrow> bool
     \<Rightarrow> store_call list \<times> SearchResult" where
  "searchPostalCode st startTime endTime country postalCode fuzzy =
     (if country = [] \<or> postalCode = [] then
        ([], \<lparr> success = False,
               error = Some ''Country and postal code are required'',
               matchType = None, result_query = None, results = [], searchTime = None \<rparr>)
      else
        let normalizedCountry = toUpperCase (trim country);
            normalizedPostalCode = trim postalCode;
            q = \<lparr> query_country = normalizedCountry, query_postalCode = normalizedPostalCode \<rparr>;
            (calls1, exactResults) = findExactMatches st normalizedCountry normalizedPostalCode
        in
        if length exactResults > 0 then
          (calls1, \<lparr> success = True, error = None, matchType = Some ''exact'',
                     result_query = Some q,
                     results = formatResults (map (\<lambda>r. withScore r None) exactResults),
                     searchTime = Some (endTime - startTime) \<rparr>)
        else
          let (calls2, fuzzyResults) =
                (if fuzzy then findFuzzyMatches st normalizedCountry normalizedPostalCode
                 else ([], []))
          in
          if fuzzy \<and> length fuzzyResults > 0 then
            (calls1 @ calls2, \<lparr> success = True, error = None, matchType = Some ''fuzzy'',
                                 result_query = Some q,
                                 results = formatResults fuzzyResults,
                                 searchTime = Some (endTime - startTime) \<rparr>)
          else
            (calls1 @ calls2, \<lparr> success = True, error = None, matchType = Some ''none'',
                                 result_query = Some q,
                                 results = [],
                                 searchTime = Some (endTime - startTime) \<rparr>))"

section \<open>Notions used in the statements\<close>

text \<open>
  The rows and the store calls of the three strategies of \<^verbatim>\<open>findFuzzyMatches\<close>, in
  the order the loop runs them.
\<close>

definition candidateRows :: "Statements \<Rightarrow> string \<Rightarrow> string \<Rightarrow> PostalRecord list" where
  "candidateRows st country postalCode =
     concat (map (\<lambda>strategy. snd (strategy st country postalCode)) strategies)"

definition strategyCalls :: "Statements \<Rightarrow> string \<Rightarrow> string \<Rightarrow> store_call list" where
  "strategyCalls st country postalCode =
     concat (map (\<lambda>strategy. fst (strategy st country postalCode)) strategies)"

text \<open>
  \<open>scoredFrom postalCode rows x\<close>: the candidate \<open>x\<close> is one of \<open>rows\<close>, carries its score
  against \<open>postalCode\<close>, and the score reaches the threshold.
\<close>

definition scoredFrom :: "string \<Rightarrow> PostalRecord list \<Rightarrow> ScoredCandidate \<Rightarrow> bool" where
  "scoredFrom postalCode rows x =
     (\<exists>r \<in> set rows. x = withScore r (Some (calculateSimilarity postalCode (postal_code r)))
                      \<and> 0.5 \<le> calculateSimilarity postalCode (postal_code r))"

text \<open>
  \<open>inOrder cmp u v\<close>: the comparator has placed \<open>u\<close> before \<open>v\<close>, or has declined to
  place \<open>v\<close> before \<open>u\<close>. This is what the sort establishes between neighbours.
\<close>

definition inOrder :: "('a \<Rightarrow> 'a \<Rightarrow> real) \<Rightarrow> 'a \<Rightarrow> 'a \<Rightarrow> bool" where
  "inOrder cmp u v = (cmp u v < 0 \<or> \<not> cmp v u < 0)"

text \<open>
  The prefix lengths that \<^verbatim>\<open>partialPostalCodeSearch\<close> may query, longest first: from
  one less than the length of the query down to \<open>max(2, floor(0.6 * length))\<close>.
\<close>

definition shrinkLengths :: "string \<Rightarrow> int list" where
  "shrinkLengths postalCode =
     rev [max 2 \<lfloor>real (length postalCode) * 0.6\<rfloor> .. int (length postalCode) - 1]"

definition prefixQuery :: "string \<Rightarrow> string \<Rightarrow> int \<Rightarrow> store_call" where
  "prefixQuery country postalCode len = FindFuzzy country (take (nat len) postalCode)"

definition prefixRows ::
  "Statements \<Rightarrow> string \<Rightarrow> string \<Rightarrow> int \<Rightarrow> PostalRecord list option" where
  "prefixRows st country postalCode len = findFuzzy st country (take (nat len) postalCode)"

text \<open>The rows that the queries for the prefix lengths \<open>lens\<close> return, concatenated.\<close>

definition fetched :: "Statements \<Rightarrow> string \<Rightarrow> string \<Rightarrow> int list \<Rightarrow> PostalRecord list" where
  "fetched st country postalCode lens =
     concat (map (\<lambda>len. case prefixRows st country postalCode len of
                           Some rows \<Rightarrow> rows | None \<Rightarrow> []) lens)"

text \<open>
  \<open>shrinkRun st country postalCode lens acc out\<close> describes a run of the loop of
  \<^verbatim>\<open>partialPostalCodeSearch\<close> over the prefix lengths \<open>lens\<close> that starts with the rows
  \<open>acc\<close> and ends with the calls and the value \<open>out\<close>: the calls are the queries for an
  initial part of \<open>lens\<close>; the value is all rows when no query was rejected and \<open>None\<close>
  otherwise; the run stops before the end of \<open>lens\<close> only on a rejection or with
  \<open>maxResults\<close> rows, and goes past a length only with fewer.
\<close>

definition shrinkRun ::
  "Statements \<Rightarrow> string \<Rightarrow> string \<Rightarrow> int list \<Rightarrow> PostalRecord list
     \<Rightarrow> store_call list \<times> PostalRecord list option \<Rightarrow> bool" where
  "shrinkRun st country postalCode lens acc out =
     (let k = length (fst out); ran = take k lens in
      k \<le> length lens
      \<and> fst out = map (prefixQuery country postalCode) ran
      \<and> ((\<forall>len \<in> set ran. prefixRows st country postalCode len \<noteq> None) \<longrightarrow>
           snd out = Some (acc @ fetched st country postalCode ran))
      \<and> ((\<exists>len \<in> set ran. prefixRows st country postalCode len = None) \<longrightarrow> snd out = None)
      \<and> (k < length lens \<longrightarrow>
           (\<exists>len \<in> set ran. prefixRows st country postalCode len = None)
           \<or> maxResults \<le> length (acc @ fetched st country postalCode ran))
      \<and> (\<forall>j < k. length (acc @ fetched st country postalCode (take j lens)) < maxResults
                  \<and> (\<forall>len \<in> set (take j lens). prefixRows st country postalCode len \<noteq> None)))"

section \<open>Concrete stores\<close>

text \<open>
  Small stores for the concrete runs below. Each answers as the three statements of
  \<^verbatim>\<open>schema.js\<close> would on a table that holds the rows named: \<^verbatim>\<open>findFuzzy\<close> returns
  the rows whose postal code contains the pattern, nearest length first.
\<close>

definition usRow :: "string \<Rightarrow> string \<Rightarrow> int option \<Rightarrow> PostalRecord" where
  "usRow pc place acc =
     \<lparr> country_code = ''US'', postal_code = pc, place_name = Some place,
       admin_name1 = Some ''California'', admin_code1 = Some ''CA'',
       admin_name2 = Some ''Los Angeles'', admin_code2 = Some ''037'',
       admin_name3 = None, admin_code3 = None,
       latitude = None, longitude = None, accuracy = acc \<rparr>"

definition beverlyHills :: PostalRecord where
  "beverlyHills = usRow ''90210'' ''Beverly Hills'' (Some 4)"

text \<open>
  A table with the row \<open>90210\<close> and a row \<open>10001\<close> whose place name contains \<open>99999\<close>.
\<close>

definition zipStore :: Statements where
  "zipStore =
     \<lparr> findExact = (\<lambda>c p. if c = ''US'' \<and> p = ''90210'' then Some [beverlyHills] else Some []),
       findFuzzy = (\<lambda>c p. if c = ''US'' \<and> p = ''9021'' then Some [beverlyHills] else Some []),
       findByPlace = (\<lambda>c p. if c = ''US'' \<and> p = ''99999''
                             then Some [usRow ''10001'' ''Box 99999'' (Some 1)] else Some []) \<rparr>"

text \<open>A store whose answer to the prefix \<open>9021\<close> fills the result cap at once.\<close>

definition busyStore :: Statements where
  "busyStore =
     \<lparr> findExact = (\<lambda>c p. Some []),
       findFuzzy = (\<lambda>c p. if c = ''US'' \<and> p = ''9021'' then Some (replicate 20 beverlyHills)
                           else Some []),
       findByPlace = (\<lambda>c p. Some []) \<rparr>"

text \<open>
  Three rows whose scores against \<open>90210\<close> are \<open>0.75\<close>, \<open>0.7571\<close> and \<open>0.7625\<close>, with
  accuracy falling as the score rises.
\<close>

definition chainRows :: "PostalRecord list" where
  "chainRows = [usRow ''090211'' ''Alpha'' (Some 6), usRow ''9021111'' ''Bravo'' (Some 4),
                usRow ''90200100'' ''Charlie'' (Some 1)]"

definition chainStore :: Statements where
  "chainStore =
     \<lparr> findExact = (\<lambda>c p. Some []),
       findFuzzy = (\<lambda>c p. if c = ''US'' \<and> p = ''9021'' then Some (take 2 chainRows)
                           else if c = ''US'' \<and> p = ''902'' then Some chainRows
                           else Some []),
       findByPlace = (\<lambda>c p. Some []) \<rparr>"

text \<open>
  Three rows whose scores against \<open>90210\<close> are \<open>0.74\<close>, \<open>0.7286\<close> and \<open>0.7375\<close>, with
  accuracies \<open>1\<close>, \<open>6\<close> and \<open>4\<close>.
\<close>

definition cycleRows :: "PostalRecord list" where
  "cycleRows = [usRow ''99021'' ''Delta'' (Some 1), usRow ''9020000'' ''Echo'' (Some 6),
                usRow ''90021902'' ''Foxtrot'' (Some 4)]"

definition cycleStore :: Statements where
  "cycleStore =
     \<lparr> findExact = (\<lambda>c p. Some []),
       findFuzzy = (\<lambda>c p. if c = ''US'' \<and> p = ''9021'' then Some (take 1 cycleRows)
                           else if c = ''US'' \<and> p = ''902'' then Some cycleRows
                           else Some []),
       findByPlace = (\<lambda>c p. Some []) \<rparr>"

section \<open>Properties of the similarity scorer\<close>

lemma levenshtein_Nil2: "levenshtein s [] = length s"
  by (cases s) simp_all

lemma levenshtein_commute: "levenshtein s t = levenshtein t s"
  by (induction s t rule: levenshtein.induct)
     (simp_all add: levenshtein_Nil2 min.commute min.left_commute)

lemma levenshtein_le_max: "levenshtein s t \<le> max (length s) (length t)"
  by (induction s t rule: levenshtein.induct) (auto simp: min_def max_def)

lemma prefixLength_commute: "prefixLength s t = prefixLength t s"
  by (induction s t rule: prefixLength.induct) (auto simp: eq_commute)

lemma calculateSimilarity_commute: "calculateSimilarity a b = calculateSimilarity b a"
proof (cases "a = b")
  case True
  then show ?thesis by simp
next
  case False
  then have "b \<noteq> a" by simp
  with False show ?thesis
    by (simp add: calculateSimilarity_def Let_def levenshtein_commute [of a b]
        prefixLength_commute [of a b] max.commute min.commute)
qed

text \<open>
  C9: for every string \<open>s\<close>, the score of \<open>s\<close> against itself is \<open>1.0\<close> exactly. This is
  the first test of \<^verbatim>\<open>calculateSimilarity\<close>.
\<close>

theorem calculateSimilarity_identical: "calculateSimilarity s s = 1"
  by (simp add: calculateSimilarity_def)

text \<open>
  C1: for every query and candidate, the score lies in \<open>[0, 1]\<close>. The edit distance never
  exceeds the longer length, so the base term is not negative; the two bonuses are not
  negative either, and the final \<^verbatim>\<open>Math.min\<close> caps the sum at \<open>1.0\<close>.
\<close>

theorem calculateSimilarity_range:
  "0 \<le> calculateSimilarity query target \<and> calculateSimilarity query target \<le> 1"
proof (cases "query = target \<or> max (length query) (length target) = 0")
  case True
  then show ?thesis by (auto simp: calculateSimilarity_def)
next
  case False
  define m where "m = max (length query) (length target)"
  have m: "0 < m" using False by (auto simp: m_def max_def)
  have "real (levenshtein query target) \<le> real m"
    unfolding m_def using levenshtein_le_max [of query target] by linarith
  then have base: "0 \<le> 1 - real (levenshtein query target) / real m"
    using m by (simp add: divide_le_eq)
  have b1: "0 \<le> real (min (length query) (length target)) / real m * 0.1" by simp
  have b2: "0 \<le> real (prefixLength query target) / real m * 0.2" by simp
  have eq: "calculateSimilarity query target =
      min 1 (1 - real (levenshtein query target) / real m
             + real (min (length query) (length target)) / real m * 0.1
             + real (prefixLength query target) / real m * 0.2)"
    using False by (simp add: calculateSimilarity_def Let_def m_def)
  show ?thesis unfolding eq using base b1 b2 by simp
qed

text \<open>
  C7, as the code has it: the scorer is symmetric. The edit distance is symmetric, the
  two bonuses divide by the longer length, and the prefix loop compares the lower-cased
  characters of the two strings position by position, which does not depend on which
  string is the query.
\<close>

theorem calculateSimilarity_symmetric: "calculateSimilarity a b = calculateSimilarity b a"
  by (rule calculateSimilarity_commute)

text \<open>
  C7, as the specification states it (there are \<open>a\<close> and \<open>b\<close> whose two scores differ),
  is false: no such pair exists.
\<close>

theorem calculateSimilarity_no_asymmetric_pair:
  "\<not> (\<exists>a b. calculateSimilarity a b \<noteq> calculateSimilarity b a)"
  using calculateSimilarity_commute by blast

section \<open>Evaluation of the concrete runs\<close>

lemma floor_six_tenths: "\<lfloor>real n * 0.6\<rfloor> = int (n * 3 div 5)"
proof -
  have "real n * 0.6 = real (n * 3) / real 5" by simp
  then show ?thesis by (simp only: floor_divide_of_nat_eq)
qed

lemma trim_plain:
  "trim ''US'' = ''US''" "trim ''90210'' = ''90210''" "trim ''9021'' = ''9021''"
  "trim ''99999'' = ''99999''" "trim '' us '' = ''us''" "trim ''90210 '' = ''90210''"
  "trim ''  '' = []"
  by (simp_all add: trim_def isWhiteSpace_def)

lemma toUpperCase_US: "toUpperCase ''US'' = ''US''" "toUpperCase ''us'' = ''US''"
  by (simp_all add: toUpperCase_def toUpperCase_char_def upperLetters_def lowerLetters_def)

lemma score_090211: "calculateSimilarity ''90210'' ''090211'' = 3/4"
  by (simp add: calculateSimilarity_def toLowerCase_char_def upperLetters_def lowerLetters_def)

lemma score_9021111: "calculateSimilarity ''90210'' ''9021111'' = 53/70"
  by (simp add: calculateSimilarity_def toLowerCase_char_def upperLetters_def lowerLetters_def)

lemma score_90200100: "calculateSimilarity ''90210'' ''90200100'' = 61/80"
  by (simp add: calculateSimilarity_def toLowerCase_char_def upperLetters_def lowerLetters_def)

lemma score_99021: "calculateSimilarity ''90210'' ''99021'' = 37/50"
  by (simp add: calculateSimilarity_def toLowerCase_char_def upperLetters_def lowerLetters_def)

lemma score_9020000: "calculateSimilarity ''90210'' ''9020000'' = 51/70"
  by (simp add: calculateSimilarity_def toLowerCase_char_def upperLetters_def lowerLetters_def)

lemma score_90021902: "calculateSimilarity ''90210'' ''90021902'' = 59/80"
  by (simp add: calculateSimilarity_def toLowerCase_char_def upperLetters_def lowerLetters_def)

lemma score_9021_90210: "calculateSimilarity ''9021'' ''90210'' = 1"
  by (simp add: calculateSimilarity_def toLowerCase_char_def upperLetters_def lowerLetters_def)

lemma score_99999_10001: "calculateSimilarity ''99999'' ''10001'' = 1/10"
  by (simp add: calculateSimilarity_def toLowerCase_char_def upperLetters_def lowerLetters_def)

lemma score_withScore [simp]: "ScoredCandidate.similarity_score (withScore r s) = s"
  by (simp add: withScore_def PostalRecord.defs ScoredCandidate.defs)

lemma fields_withScore [simp]:
  "postal_code (withScore r s) = postal_code r" "accuracy (withScore r s) = accuracy r"
  by (simp_all add: withScore_def PostalRecord.defs ScoredCandidate.defs)

section \<open>Properties of the lookup orchestrator\<close>

text \<open>
  C8, as the code has it: validation comes before normalization and tests the country
  and the postal code as they were passed. When either is empty, \<^verbatim>\<open>searchPostalCode\<close>
  returns \<open>success = false\<close> with the error "Country and postal code are required" and
  no result, and makes no store call.
\<close>

theorem validation_failure_no_store_access:
  assumes "country = [] \<or> postalCode = []"
  shows "searchPostalCode st startTime endTime country postalCode fuzzy =
           ([], \<lparr> success = False, error = Some ''Country and postal code are required'',
                   matchType = None, result_query = None, results = [], searchTime = None \<rparr>)"
  using assms by (auto simp: searchPostalCode_def)

text \<open>C8, witness: the empty country with the postal code \<open>90210\<close>.\<close>

theorem validation_failure_no_store_access_witness:
  "searchPostalCode zipStore 0 3 [] ''90210'' True =
           ([], \<lparr> success = False, error = Some ''Country and postal code are required'',
                   matchType = None, result_query = None, results = [], searchTime = None \<rparr>)"
  using validation_failure_no_store_access [of "[]" "''90210''" zipStore 0 3 True] by simp

text \<open>
  C8, as the specification states it (an input whose trimmed country is empty is
  rejected without store access), fails for a country of two spaces: it passes the
  test, is trimmed to the empty string, and the exact query runs; the answer is a
  success.
\<close>

theorem blank_country_reaches_store:
  "trim ''  '' = []
   \<and> success (snd (searchPostalCode zipStore 0 3 ''  '' ''90210'' True))
   \<and> fst (searchPostalCode zipStore 0 3 ''  '' ''90210'' True) \<noteq> []"
  by (simp add: searchPostalCode_def findExactMatches_def zipStore_def trim_def isWhiteSpace_def
      toUpperCase_def Let_def split_beta)

text \<open>
  C4: for a query that passes validation, when the exact query returns at least one
  row, \<^verbatim>\<open>searchPostalCode\<close> answers with \<open>matchType = 'exact'\<close> and those rows
  formatted, and the exact query is the only store call: no fuzzy strategy runs.
\<close>

theorem exact_match_returns_immediately:
  assumes "country \<noteq> []" and "postalCode \<noteq> []"
    and "findExact st (toUpperCase (trim country)) (trim postalCode) = Some rows"
    and "rows \<noteq> []"
  shows "searchPostalCode st startTime endTime country postalCode fuzzy =
           ([FindExact (toUpperCase (trim country)) (trim postalCode)],
            \<lparr> success = True, error = None, matchType = Some ''exact'',
              result_query = Some \<lparr> query_country = toUpperCase (trim country),
                                     query_postalCode = trim postalCode \<rparr>,
              results = formatResults (map (\<lambda>r. withScore r None) rows),
              searchTime = Some (endTime - startTime) \<rparr>)"
  using assms by (simp add: searchPostalCode_def findExactMatches_def Let_def)

text \<open>C4, witness: the query \<open>(" us ", "90210 ")\<close> on the store that holds \<open>90210\<close>.\<close>

theorem exact_match_returns_immediately_witness:
  "searchPostalCode zipStore 0 3 '' us '' ''90210 '' True =
           ([FindExact ''US'' ''90210''],
            \<lparr> success = True, error = None, matchType = Some ''exact'',
              result_query = Some \<lparr> query_country = ''US'', query_postalCode = ''90210'' \<rparr>,
              results = formatResults [withScore beverlyHills None],
              searchTime = Some 3 \<rparr>)"
proof -
  have 1: "'' us '' \<noteq> []" and 2: "''90210 '' \<noteq> []" by simp_all
  have 3: "findExact zipStore (toUpperCase (trim '' us '')) (trim ''90210 '') = Some [beverlyHills]"
    by (simp add: trim_plain toUpperCase_US zipStore_def)
  have 4: "[beverlyHills] \<noteq> []" by simp
  show ?thesis
    using exact_match_returns_immediately [OF 1 2 3 4, of 0 3 True]
    by (simp add: trim_plain toUpperCase_US)
qed

text \<open>
  C10: every formatted record of an answer with \<open>matchType = 'exact'\<close> carries
  \<open>similarity_score = 1.0\<close>. The exact rows reach \<^verbatim>\<open>formatResults\<close> without the
  property, and \<^verbatim>\<open>result.similarity_score || 1.0\<close> fills it in.
\<close>

theorem exact_results_score_one:
  assumes "matchType (snd (searchPostalCode st startTime endTime country postalCode fuzzy))
             = Some ''exact''"
  shows "\<forall>f \<in> set (results (snd (searchPostalCode st startTime endTime country postalCode fuzzy))).
           FormattedRecord.similarity_score f = 1"
  using assms
  by (auto simp: searchPostalCode_def Let_def split_beta formatResults_def formatResult_def
      withScore_def PostalRecord.defs ScoredCandidate.defs scoreOrOne_def split: if_splits)

text \<open>C10, witness: the exact answer for \<open>("US", "90210")\<close>, which holds one record.\<close>

theorem exact_results_score_one_witness:
  "matchType (snd (searchPostalCode zipStore 0 3 ''US'' ''90210'' True)) = Some ''exact''
   \<and> length (results (snd (searchPostalCode zipStore 0 3 ''US'' ''90210'' True))) = 1
   \<and> FormattedRecord.similarity_score
         (hd (results (snd (searchPostalCode zipStore 0 3 ''US'' ''90210'' True)))) = 1"
proof -
  have r: "snd (searchPostalCode zipStore 0 3 ''US'' ''90210'' True) =
      \<lparr> success = True, error = None, matchType = Some ''exact'',
        result_query = Some \<lparr> query_country = ''US'', query_postalCode = ''90210'' \<rparr>,
        results = formatResults [withScore beverlyHills None],
        searchTime = Some 3 \<rparr>"
    by (simp add: searchPostalCode_def Let_def trim_plain toUpperCase_US findExactMatches_def
        zipStore_def)
  then have h: "matchType (snd (searchPostalCode zipStore 0 3 ''US'' ''90210'' True))
                  = Some ''exact''"
    by simp
  from r have n: "length (results (snd (searchPostalCode zipStore 0 3 ''US'' ''90210'' True))) = 1"
    by (simp add: formatResults_def)
  then have "hd (results (snd (searchPostalCode zipStore 0 3 ''US'' ''90210'' True)))
               \<in> set (results (snd (searchPostalCode zipStore 0 3 ''US'' ''90210'' True)))"
    by (intro hd_in_set) auto
  with exact_results_score_one [OF h] h n show ?thesis by blast
qed

section \<open>Properties of the match aggregator\<close>

subsection \<open>The loop over the strategies\<close>

lemma runStrategies_fold:
  "foldl (runStrategy st country postalCode) (calls, acc) ss =
     (calls @ concat (map (\<lambda>s. fst (s st country postalCode)) ss),
      foldl (addCandidate postalCode) acc (concat (map (\<lambda>s. snd (s st country postalCode)) ss)))"
  by (induction ss arbitrary: calls acc)
     (simp_all add: runStrategy_def split_beta)

lemma findFuzzyMatches_eq:
  "findFuzzyMatches st country postalCode =
     (strategyCalls st country postalCode,
      take maxResults (sort_js compareCandidates
        (snd (foldl (addCandidate postalCode) ({}, []) (candidateRows st country postalCode)))))"
  unfolding findFuzzyMatches_def runStrategies_fold strategyCalls_def candidateRows_def
  by (simp add: split_beta)

lemma addCandidate_below:
  "calculateSimilarity postalCode (postal_code r) < 0.5 \<Longrightarrow>
     snd (addCandidate postalCode acc r) = snd acc"
  by (simp add: addCandidate_def Let_def split_beta)

lemma foldl_addCandidate_below:
  "\<forall>r \<in> set rows. calculateSimilarity postalCode (postal_code r) < 0.5 \<Longrightarrow>
     snd (foldl (addCandidate postalCode) acc rows) = snd acc"
  by (induction rows arbitrary: acc) (simp_all add: addCandidate_below)

lemma foldl_addCandidate_scored:
  "\<forall>x \<in> set (snd acc). scoredFrom p seen x \<Longrightarrow>
   \<forall>x \<in> set (snd (foldl (addCandidate p) acc rows)). scoredFrom p (seen @ rows) x"
proof (induction rows arbitrary: acc seen)
  case Nil
  then show ?case by simp
next
  case (Cons r rows)
  have "\<forall>x \<in> set (snd (addCandidate p acc r)). scoredFrom p (seen @ [r]) x"
    using Cons.prems
    by (auto simp: addCandidate_def Let_def split_beta scoredFrom_def)
  from Cons.IH [OF this] show ?case by simp
qed

subsection \<open>The sort\<close>

lemma sort_js_Nil: "sort_js cmp [] = []"
  by (simp add: sort_js_def)

lemma hd_insertLeft:
  "hd (insertLeft cmp x ys) = x \<or> (ys \<noteq> [] \<and> hd (insertLeft cmp x ys) = hd ys)"
  by (cases ys) simp_all

lemma successively_insertLeft:
  "successively (\<lambda>a b. inOrder cmp b a) ys \<Longrightarrow>
     successively (\<lambda>a b. inOrder cmp b a) (insertLeft cmp x ys)"
proof (induction ys)
  case Nil
  then show ?case by simp
next
  case (Cons y ys)
  show ?case
  proof (cases "cmp x y < 0")
    case False
    with Cons.prems show ?thesis by (simp add: inOrder_def)
  next
    case True
    have rest: "successively (\<lambda>a b. inOrder cmp b a) (insertLeft cmp x ys)"
      using Cons.IH Cons.prems by (auto simp: successively_Cons)
    have "inOrder cmp (hd (insertLeft cmp x ys)) y"
      using hd_insertLeft [of cmp x ys] True Cons.prems
      by (auto simp: inOrder_def successively_Cons)
    with rest True show ?thesis
      by (simp add: successively_Cons)
  qed
qed

lemma successively_foldl_insertLeft:
  "successively (\<lambda>a b. inOrder cmp b a) acc \<Longrightarrow>
     successively (\<lambda>a b. inOrder cmp b a) (foldl (\<lambda>sorted x. insertLeft cmp x sorted) acc xs)"
  by (induction xs arbitrary: acc) (simp_all add: successively_insertLeft)

lemma successively_sort_js: "successively (inOrder cmp) (sort_js cmp xs)"
  using successively_foldl_insertLeft [of cmp "[]" xs] by (simp add: sort_js_def)

lemma set_insertLeft: "set (insertLeft cmp x ys) = insert x (set ys)"
  by (induction ys) auto

lemma set_foldl_insertLeft:
  "set (foldl (\<lambda>sorted x. insertLeft cmp x sorted) acc xs) = set acc \<union> set xs"
  by (induction xs arbitrary: acc) (auto simp: set_insertLeft)

lemma set_sort_js: "set (sort_js cmp xs) = set xs"
  by (simp add: sort_js_def set_foldl_insertLeft)

lemma successively_take: "successively P xs \<Longrightarrow> successively P (take n xs)"
proof -
  assume "successively P xs"
  then have "successively P (take n xs @ drop n xs)" by simp
  then show ?thesis unfolding successively_append_iff by blast
qed

subsection \<open>The comparator\<close>

lemma localeCompare_antisym: "localeCompare t s = - localeCompare s t"
  by (induction s t rule: localeCompare.induct) auto

lemma compareCandidates_antisym: "compareCandidates b a = - compareCandidates a b"
  by (auto simp: compareCandidates_def localeCompare_antisym [of "postal_code a"]
      abs_minus_commute split: option.splits)

lemma inOrder_compareCandidates:
  "inOrder compareCandidates u v \<Longrightarrow> compareCandidates u v \<le> 0"
  using compareCandidates_antisym [of v u] by (auto simp: inOrder_def)

subsection \<open>The aggregated list\<close>

lemma findFuzzyMatches_scored:
  "\<forall>x \<in> set (snd (findFuzzyMatches st country postalCode)).
      scoredFrom postalCode (candidateRows st country postalCode) x"
proof -
  have "\<forall>x \<in> set (snd (foldl (addCandidate postalCode) ({}, [])
                       (candidateRows st country postalCode))).
          scoredFrom postalCode ([] @ candidateRows st country postalCode) x"
    by (rule foldl_addCandidate_scored) simp
  then show ?thesis
    by (auto simp: findFuzzyMatches_eq set_sort_js dest: in_set_takeD)
qed

lemma findFuzzyMatches_inOrder:
  "successively (inOrder compareCandidates) (snd (findFuzzyMatches st country postalCode))"
  by (simp add: findFuzzyMatches_eq successively_take successively_sort_js)

subsection \<open>Two concrete aggregations\<close>

lemma partial_chain:
  "partialPostalCodeSearch chainStore ''US'' ''90210'' =
     ([FindFuzzy ''US'' ''9021'', FindFuzzy ''US'' ''902''], take 2 chainRows @ chainRows)"
  by (simp add: partialPostalCodeSearch_def floor_six_tenths chainStore_def maxResults_def
      chainRows_def Let_def)

lemma fuzzy_chain:
  "fuzzyPostalCodeSearch chainStore ''US'' ''90210'' = ([FindFuzzy ''US'' ''90210''], [])"
  by (simp add: fuzzyPostalCodeSearch_def chainStore_def)

lemma place_chain:
  "placeNameSearch chainStore ''US'' ''90210'' = ([FindByPlace ''US'' ''90210''], [])"
  by (simp add: placeNameSearch_def chainStore_def)

lemma candidateRows_chain:
  "candidateRows chainStore ''US'' ''90210'' = take 2 chainRows @ chainRows"
  by (simp add: candidateRows_def strategies_def partial_chain fuzzy_chain place_chain)

lemma chain_result:
  "snd (findFuzzyMatches chainStore ''US'' ''90210'') =
     [withScore (usRow ''090211'' ''Alpha'' (Some 6)) (Some (3/4)),
      withScore (usRow ''9021111'' ''Bravo'' (Some 4)) (Some (53/70)),
      withScore (usRow ''90200100'' ''Charlie'' (Some 1)) (Some (61/80))]"
  by (simp add: findFuzzyMatches_eq candidateRows_chain chainRows_def addCandidate_def
      recordKey_def stringOf_def usRow_def score_090211 score_9021111 score_90200100
      sort_js_def compareCandidates_def orZero_def maxResults_def)

lemma partial_cycle:
  "partialPostalCodeSearch cycleStore ''US'' ''90210'' =
     ([FindFuzzy ''US'' ''9021'', FindFuzzy ''US'' ''902''], take 1 cycleRows @ cycleRows)"
  by (simp add: partialPostalCodeSearch_def floor_six_tenths cycleStore_def maxResults_def
      cycleRows_def Let_def)

lemma fuzzy_cycle:
  "fuzzyPostalCodeSearch cycleStore ''US'' ''90210'' = ([FindFuzzy ''US'' ''90210''], [])"
  by (simp add: fuzzyPostalCodeSearch_def cycleStore_def)

lemma place_cycle:
  "placeNameSearch cycleStore ''US'' ''90210'' = ([FindByPlace ''US'' ''90210''], [])"
  by (simp add: placeNameSearch_def cycleStore_def)

lemma candidateRows_cycle:
  "candidateRows cycleStore ''US'' ''90210'' = take 1 cycleRows @ cycleRows"
  by (simp add: candidateRows_def strategies_def partial_cycle fuzzy_cycle place_cycle)

lemma cycle_result:
  "snd (findFuzzyMatches cycleStore ''US'' ''90210'') =
     [withScore (usRow ''99021'' ''Delta'' (Some 1)) (Some (37/50)),
      withScore (usRow ''9020000'' ''Echo'' (Some 6)) (Some (51/70)),
      withScore (usRow ''90021902'' ''Foxtrot'' (Some 4)) (Some (59/80))]"
  by (simp add: findFuzzyMatches_eq candidateRows_cycle cycleRows_def addCandidate_def
      recordKey_def stringOf_def usRow_def score_99021 score_9020000 score_90021902
      sort_js_def compareCandidates_def orZero_def maxResults_def)

subsection \<open>Size, threshold and order of the aggregated list\<close>

text \<open>
  C2, as the code has it: the list that \<^verbatim>\<open>findFuzzyMatches\<close> returns has at most 20
  entries; every entry is a fetched row that carries its score against the query, and
  the score is at least \<open>0.5\<close>; and each entry's score is at least the score of the
  entry right after it minus \<open>0.01\<close>. The order is stated between neighbours only:
  scores within \<open>0.01\<close> count as tied and are ranked by accuracy, and such ties do not
  chain, so an entry further down may exceed an earlier one by more than \<open>0.01\<close>.
\<close>

theorem fuzzy_matches_bounded_filtered_adjacent:
  "length (snd (findFuzzyMatches st country postalCode)) \<le> 20
   \<and> (\<forall>x \<in> set (snd (findFuzzyMatches st country postalCode)).
         \<exists>r \<in> set (candidateRows st country postalCode).
           ScoredCandidate.similarity_score x = Some (calculateSimilarity postalCode (postal_code r))
           \<and> 0.5 \<le> calculateSimilarity postalCode (postal_code r))
   \<and> successively
        (\<lambda>x y. \<exists>sx sy. ScoredCandidate.similarity_score x = Some sx
                        \<and> ScoredCandidate.similarity_score y = Some sy
                        \<and> sy - 0.01 \<le> sx)
        (snd (findFuzzyMatches st country postalCode))"
proof (intro conjI)
  show "length (snd (findFuzzyMatches st country postalCode)) \<le> 20"
    by (simp add: findFuzzyMatches_eq maxResults_def)
  show "\<forall>x \<in> set (snd (findFuzzyMatches st country postalCode)).
         \<exists>r \<in> set (candidateRows st country postalCode).
           ScoredCandidate.similarity_score x = Some (calculateSimilarity postalCode (postal_code r))
           \<and> 0.5 \<le> calculateSimilarity postalCode (postal_code r)"
    using findFuzzyMatches_scored [of st country postalCode]
    by (fastforce simp: scoredFrom_def)
  show "successively
        (\<lambda>x y. \<exists>sx sy. ScoredCandidate.similarity_score x = Some sx
                        \<and> ScoredCandidate.similarity_score y = Some sy
                        \<and> sy - 0.01 \<le> sx)
        (snd (findFuzzyMatches st country postalCode))"
  proof (rule successively_mono [OF findFuzzyMatches_inOrder])
    fix x y
    assume x: "x \<in> set (snd (findFuzzyMatches st country postalCode))"
      and y: "y \<in> set (snd (findFuzzyMatches st country postalCode))"
      and o: "inOrder compareCandidates x y"
    from x findFuzzyMatches_scored obtain sx
      where sx: "ScoredCandidate.similarity_score x = Some sx"
      by (fastforce simp: scoredFrom_def)
    from y findFuzzyMatches_scored obtain sy
      where sy: "ScoredCandidate.similarity_score y = Some sy"
      by (fastforce simp: scoredFrom_def)
    have "sy - 0.01 \<le> sx"
    proof (cases "\<bar>sx - sy\<bar> > 0.01")
      case True
      with inOrder_compareCandidates [OF o] sx sy show ?thesis
        by (simp add: compareCandidates_def)
    next
      case False
      then show ?thesis by linarith
    qed
    with sx sy show "\<exists>sx sy. ScoredCandidate.similarity_score x = Some sx
                        \<and> ScoredCandidate.similarity_score y = Some sy
                        \<and> sy - 0.01 \<le> sx" by simp
  qed
qed

text \<open>C2, witness: the aggregation for \<open>("US", "90210")\<close> on the store of three near rows.\<close>

theorem fuzzy_matches_bounded_filtered_adjacent_witness:
  "snd (findFuzzyMatches chainStore ''US'' ''90210'') \<noteq> []
   \<and> length (snd (findFuzzyMatches chainStore ''US'' ''90210'')) \<le> 20
   \<and> (\<exists>r \<in> set (candidateRows chainStore ''US'' ''90210'').
         ScoredCandidate.similarity_score (hd (snd (findFuzzyMatches chainStore ''US'' ''90210'')))
           = Some (calculateSimilarity ''90210'' (postal_code r))
         \<and> 0.5 \<le> calculateSimilarity ''90210'' (postal_code r))
   \<and> successively
        (\<lambda>x y. \<exists>sx sy. ScoredCandidate.similarity_score x = Some sx
                        \<and> ScoredCandidate.similarity_score y = Some sy
                        \<and> sy - 0.01 \<le> sx)
        (snd (findFuzzyMatches chainStore ''US'' ''90210''))"
proof -
  have ne: "snd (findFuzzyMatches chainStore ''US'' ''90210'') \<noteq> []"
    by (simp add: chain_result)
  then have "hd (snd (findFuzzyMatches chainStore ''US'' ''90210''))
               \<in> set (snd (findFuzzyMatches chainStore ''US'' ''90210''))"
    by (rule hd_in_set)
  with ne fuzzy_matches_bounded_filtered_adjacent [of chainStore "''US''" "''90210''"]
  show ?thesis by blast
qed

text \<open>
  C2, as the specification states it (the list is sorted non-increasing by score up to
  the tolerance \<open>0.01\<close>), fails: for \<open>("US", "90210")\<close> on the store of three near rows
  the scores come out as \<open>0.75, 0.7571, 0.7625\<close>, and the third exceeds the first by
  \<open>0.0125\<close>. Each row ties with its neighbour and outranks it by accuracy, and the
  first and the third are never compared.
\<close>

theorem chain_not_sorted_by_score:
  "map ScoredCandidate.similarity_score (snd (findFuzzyMatches chainStore ''US'' ''90210''))
     = [Some (3/4), Some (53/70), Some (61/80)]
   \<and> (3/4 :: real) < 61/80 - 0.01"
  by (simp add: chain_result)

text \<open>
  C3, as the code has it. The comparator: for two candidates whose scores are within
  \<open>0.01\<close>, when their accuracies (null as \<open>0\<close>) differ it returns the difference that
  puts the higher accuracy first, and when their stored accuracies are identical it
  returns the comparison of the postal codes. The output: of two neighbouring entries
  whose scores are within \<open>0.01\<close>, the first has the accuracy (null as \<open>0\<close>) that is
  not lower, and with identical stored accuracies the postal code that is not greater.
  The result is a function of the query and of the answers of the store.
\<close>

theorem tie_break_adjacent:
  "(\<forall>a b sa sb. ScoredCandidate.similarity_score a = Some sa
        \<and> ScoredCandidate.similarity_score b = Some sb \<and> \<bar>sa - sb\<bar> \<le> 0.01 \<longrightarrow>
        (orZero (accuracy a) \<noteq> orZero (accuracy b) \<longrightarrow>
           compareCandidates a b = real_of_int (orZero (accuracy b) - orZero (accuracy a)))
        \<and> (accuracy a = accuracy b \<longrightarrow>
           compareCandidates a b = real_of_int (localeCompare (postal_code a) (postal_code b))))
   \<and> successively
        (\<lambda>x y. \<forall>sx sy. ScoredCandidate.similarity_score x = Some sx
                  \<and> ScoredCandidate.similarity_score y = Some sy \<and> \<bar>sx - sy\<bar> \<le> 0.01 \<longrightarrow>
                  orZero (accuracy y) \<le> orZero (accuracy x)
                  \<and> (accuracy x = accuracy y \<longrightarrow>
                       localeCompare (postal_code x) (postal_code y) \<le> 0))
        (snd (findFuzzyMatches st country postalCode))"
proof (intro conjI)
  show "\<forall>a b sa sb. ScoredCandidate.similarity_score a = Some sa
        \<and> ScoredCandidate.similarity_score b = Some sb \<and> \<bar>sa - sb\<bar> \<le> 0.01 \<longrightarrow>
        (orZero (accuracy a) \<noteq> orZero (accuracy b) \<longrightarrow>
           compareCandidates a b = real_of_int (orZero (accuracy b) - orZero (accuracy a)))
        \<and> (accuracy a = accuracy b \<longrightarrow>
           compareCandidates a b = real_of_int (localeCompare (postal_code a) (postal_code b)))"
    by (auto simp: compareCandidates_def)
  show "successively
        (\<lambda>x y. \<forall>sx sy. ScoredCandidate.similarity_score x = Some sx
                  \<and> ScoredCandidate.similarity_score y = Some sy \<and> \<bar>sx - sy\<bar> \<le> 0.01 \<longrightarrow>
                  orZero (accuracy y) \<le> orZero (accuracy x)
                  \<and> (accuracy x = accuracy y \<longrightarrow>
                       localeCompare (postal_code x) (postal_code y) \<le> 0))
        (snd (findFuzzyMatches st country postalCode))"
  proof (rule successively_mono [OF findFuzzyMatches_inOrder])
    fix x y
    assume o: "inOrder compareCandidates x y"
    show "\<forall>sx sy. ScoredCandidate.similarity_score x = Some sx
                  \<and> ScoredCandidate.similarity_score y = Some sy \<and> \<bar>sx - sy\<bar> \<le> 0.01 \<longrightarrow>
                  orZero (accuracy y) \<le> orZero (accuracy x)
                  \<and> (accuracy x = accuracy y \<longrightarrow>
                       localeCompare (postal_code x) (postal_code y) \<le> 0)"
      using inOrder_compareCandidates [OF o]
      by (auto simp: compareCandidates_def split: if_splits)
  qed
qed

text \<open>
  C3, witness: the aggregation for \<open>("US", "90210")\<close> on the store of the rows with
  accuracies \<open>1, 6, 4\<close>; the second and the third entry are within \<open>0.01\<close>.
\<close>

theorem tie_break_adjacent_witness:
  "snd (findFuzzyMatches cycleStore ''US'' ''90210'') =
     [withScore (usRow ''99021'' ''Delta'' (Some 1)) (Some (37/50)),
      withScore (usRow ''9020000'' ''Echo'' (Some 6)) (Some (51/70)),
      withScore (usRow ''90021902'' ''Foxtrot'' (Some 4)) (Some (59/80))]
   \<and> \<bar>51/70 - 59/80 :: real\<bar> \<le> 0.01
   \<and> successively
        (\<lambda>x y. \<forall>sx sy. ScoredCandidate.similarity_score x = Some sx
                  \<and> ScoredCandidate.similarity_score y = Some sy \<and> \<bar>sx - sy\<bar> \<le> 0.01 \<longrightarrow>
                  orZero (accuracy y) \<le> orZero (accuracy x)
                  \<and> (accuracy x = accuracy y \<longrightarrow>
                       localeCompare (postal_code x) (postal_code y) \<le> 0))
        (snd (findFuzzyMatches cycleStore ''US'' ''90210''))"
proof -
  have "\<bar>51/70 - 59/80 :: real\<bar> \<le> 0.01" by simp
  with tie_break_adjacent [of cycleStore "''US''" "''90210''"] cycle_result
  show ?thesis by blast
qed

text \<open>
  C3, as the specification states it (whenever two candidates are within \<open>0.01\<close> they
  are ordered by accuracy descending), fails: in the same aggregation the first entry
  (score \<open>0.74\<close>, accuracy \<open>1\<close>) precedes the third (score \<open>0.7375\<close>, accuracy \<open>4\<close>).
  The first beats the second on score, the second beats the third on accuracy, and the
  third would beat the first on accuracy: no order satisfies all three.
\<close>

theorem close_scores_not_ordered_by_accuracy:
  "map (\<lambda>x. (ScoredCandidate.similarity_score x, accuracy x))
       (snd (findFuzzyMatches cycleStore ''US'' ''90210''))
     = [(Some (37/50), Some 1), (Some (51/70), Some 6), (Some (59/80), Some 4)]
   \<and> \<bar>37/50 - 59/80 :: real\<bar> \<le> 0.01 \<and> orZero (Some 1) < orZero (Some 4)"
  by (simp add: cycle_result usRow_def orZero_def)

section \<open>The answer when nothing matches\<close>

text \<open>
  C5: for a query with non-empty country and postal code, when the exact strategy finds
  no row and (with fuzzy matching enabled) every row that the fuzzy strategies fetch
  scores below \<open>0.5\<close>, \<^verbatim>\<open>searchPostalCode\<close> answers \<open>success = true\<close>,
  \<open>matchType = 'none'\<close> and the empty result list, with no error.
\<close>

theorem no_match_is_success:
  assumes "country \<noteq> []" and "postalCode \<noteq> []"
    and "snd (findExactMatches st (toUpperCase (trim country)) (trim postalCode)) = []"
    and "fuzzy \<longrightarrow> (\<forall>r \<in> set (candidateRows st (toUpperCase (trim country)) (trim postalCode)).
                       calculateSimilarity (trim postalCode) (postal_code r) < 0.5)"
  shows "snd (searchPostalCode st startTime endTime country postalCode fuzzy) =
           \<lparr> success = True, error = None, matchType = Some ''none'',
             result_query = Some \<lparr> query_country = toUpperCase (trim country),
                                    query_postalCode = trim postalCode \<rparr>,
             results = [], searchTime = Some (endTime - startTime) \<rparr>"
proof (cases fuzzy)
  case False
  with assms show ?thesis
    by (simp add: searchPostalCode_def Let_def split_beta)
next
  case True
  with assms(4) have "snd (foldl (addCandidate (trim postalCode)) ({}, [])
        (candidateRows st (toUpperCase (trim country)) (trim postalCode))) = []"
    using foldl_addCandidate_below
      [of "candidateRows st (toUpperCase (trim country)) (trim postalCode)"
          "trim postalCode" "({}, [])"]
    by simp
  then have "snd (findFuzzyMatches st (toUpperCase (trim country)) (trim postalCode)) = []"
    by (simp add: findFuzzyMatches_eq sort_js_Nil)
  with assms show ?thesis
    by (simp add: searchPostalCode_def Let_def split_beta)
qed

lemma candidateRows_zip_99999:
  "candidateRows zipStore ''US'' ''99999'' = [usRow ''10001'' ''Box 99999'' (Some 1)]"
  by (simp add: candidateRows_def strategies_def fuzzyPostalCodeSearch_def placeNameSearch_def
      partialPostalCodeSearch_def floor_six_tenths zipStore_def maxResults_def Let_def)

text \<open>
  C5, witness: \<open>("US", "99999")\<close> with fuzzy matching enabled; the place-name strategy
  fetches the row \<open>10001\<close>, whose score is \<open>0.1\<close>.
\<close>

theorem no_match_is_success_witness:
  "candidateRows zipStore ''US'' ''99999'' \<noteq> []
   \<and> snd (searchPostalCode zipStore 0 3 ''US'' ''99999'' True) =
           \<lparr> success = True, error = None, matchType = Some ''none'',
             result_query = Some \<lparr> query_country = ''US'', query_postalCode = ''99999'' \<rparr>,
             results = [], searchTime = Some 3 \<rparr>"
proof -
  have 1: "''US'' \<noteq> []" and 2: "''99999'' \<noteq> []" by simp_all
  have 3: "snd (findExactMatches zipStore (toUpperCase (trim ''US'')) (trim ''99999'')) = []"
    by (simp add: trim_plain toUpperCase_US findExactMatches_def zipStore_def)
  have 4: "True \<longrightarrow>
      (\<forall>r \<in> set (candidateRows zipStore (toUpperCase (trim ''US'')) (trim ''99999'')).
          calculateSimilarity (trim ''99999'') (postal_code r) < 0.5)"
    by (simp add: trim_plain toUpperCase_US candidateRows_zip_99999 usRow_def score_99999_10001)
  from no_match_is_success [OF 1 2 3 4, of 0 3]
  show ?thesis by (simp add: trim_plain toUpperCase_US candidateRows_zip_99999)
qed

section \<open>Properties of the prefix-shrinking strategy\<close>

lemma rev_upto_Cons: "m \<le> len \<Longrightarrow> rev [m..len] = len # rev [m..len - 1]"
  by (simp add: upto_rec2)

lemma fetched_Cons:
  "fetched st c p (len # lens) =
     (case prefixRows st c p len of Some rows \<Rightarrow> rows | None \<Rightarrow> []) @ fetched st c p lens"
  by (simp add: fetched_def)

lemma fetched_Nil: "fetched st c p [] = []"
  by (simp add: fetched_def)

lemma shrinkRun_stop_rejected:
  assumes "prefixRows st c p len = None" "length acc < maxResults"
  shows "shrinkRun st c p (len # lens) acc ([prefixQuery c p len], None)"
  using assms by (simp add: shrinkRun_def fetched_Nil)

lemma shrinkRun_stop_full:
  assumes "prefixRows st c p len = Some rows" "length acc < maxResults"
    "maxResults \<le> length (acc @ rows)"
  shows "shrinkRun st c p (len # lens) acc ([prefixQuery c p len], Some (acc @ rows))"
  using assms by (simp add: shrinkRun_def fetched_Nil fetched_Cons)

lemma shrinkRun_step:
  assumes rows: "prefixRows st c p len = Some rows" and acc: "length acc < maxResults"
    and rest: "shrinkRun st c p lens (acc @ rows) (calls, r)"
  shows "shrinkRun st c p (len # lens) acc (prefixQuery c p len # calls, r)"
proof -
  have under: "\<forall>j < Suc (length calls).
      length (acc @ fetched st c p (take j (len # lens))) < maxResults
      \<and> (\<forall>l \<in> set (take j (len # lens)). prefixRows st c p l \<noteq> None)"
  proof (intro allI impI)
    fix j assume j: "j < Suc (length calls)"
    show "length (acc @ fetched st c p (take j (len # lens))) < maxResults
      \<and> (\<forall>l \<in> set (take j (len # lens)). prefixRows st c p l \<noteq> None)"
    proof (cases j)
      case 0
      with acc show ?thesis by (simp add: fetched_Nil)
    next
      case (Suc i)
      with j have "i < length calls" by simp
      with rest have "length ((acc @ rows) @ fetched st c p (take i lens)) < maxResults
          \<and> (\<forall>l \<in> set (take i lens). prefixRows st c p l \<noteq> None)"
        by (simp add: shrinkRun_def Let_def)
      with Suc rows show ?thesis by (simp add: fetched_Cons)
    qed
  qed
  from rest rows have others:
    "Suc (length calls) \<le> length (len # lens)"
    "prefixQuery c p len # calls = map (prefixQuery c p) (take (Suc (length calls)) (len # lens))"
    "(\<forall>l \<in> set (take (Suc (length calls)) (len # lens)). prefixRows st c p l \<noteq> None) \<longrightarrow>
       r = Some (acc @ fetched st c p (take (Suc (length calls)) (len # lens)))"
    "(\<exists>l \<in> set (take (Suc (length calls)) (len # lens)). prefixRows st c p l = None) \<longrightarrow> r = None"
    "Suc (length calls) < length (len # lens) \<longrightarrow>
       (\<exists>l \<in> set (take (Suc (length calls)) (len # lens)). prefixRows st c p l = None)
       \<or> maxResults \<le> length (acc @ fetched st c p (take (Suc (length calls)) (len # lens)))"
    by (simp_all add: shrinkRun_def Let_def fetched_Cons)
  with under show ?thesis
    unfolding shrinkRun_def Let_def fst_conv snd_conv length_Cons by blast
qed

lemma partialLoop_shrinkRun:
  "length acc < maxResults \<Longrightarrow>
     shrinkRun st country postalCode (rev [minLength..len]) acc
       (partialLoop st country postalCode minLength len acc)"
proof (induction st country postalCode minLength len acc rule: partialLoop.induct)
  case (1 st country postalCode minLength len acc)
  show ?case
  proof (cases "minLength \<le> len")
    case False
    then show ?thesis
      by (simp add: shrinkRun_def fetched_Nil)
  next
    case True
    note lens = rev_upto_Cons [OF True]
    show ?thesis
    proof (cases "findFuzzy st country (take (nat len) postalCode)")
      case None
      then have "prefixRows st country postalCode len = None" by (simp add: prefixRows_def)
      from shrinkRun_stop_rejected [OF this "1.prems"] True None show ?thesis
        by (simp add: lens prefixQuery_def)
    next
      case (Some rows)
      then have pr: "prefixRows st country postalCode len = Some rows"
        by (simp add: prefixRows_def)
      show ?thesis
      proof (cases "maxResults \<le> length (acc @ rows)")
        case full: True
        from shrinkRun_stop_full [OF pr "1.prems" full] True Some full show ?thesis
          by (simp add: lens prefixQuery_def)
      next
        case under: False
        then have u: "length (acc @ rows) < maxResults" by simp
        obtain calls r where rec:
          "partialLoop st country postalCode minLength (len - 1) (acc @ rows) = (calls, r)"
          by (cases "partialLoop st country postalCode minLength (len - 1) (acc @ rows)")
        have "shrinkRun st country postalCode (rev [minLength..len - 1]) (acc @ rows) (calls, r)"
          using "1.IH" [OF True refl Some refl under u] rec by simp
        from shrinkRun_step [OF pr "1.prems" this] True Some under rec show ?thesis
          by (simp add: lens prefixQuery_def)
      qed
    qed
  qed
qed

lemma partialPostalCodeSearch_shrinkRun:
  "shrinkRun st country postalCode (shrinkLengths postalCode) []
     (partialLoop st country postalCode (max 2 \<lfloor>real (length postalCode) * 0.6\<rfloor>)
        (int (length postalCode) - 1) [])"
  unfolding shrinkLengths_def by (rule partialLoop_shrinkRun) (simp add: maxResults_def)

lemma searchPostalCode_calls:
  assumes "country \<noteq> []" "postalCode \<noteq> []"
  shows "fst (searchPostalCode st startTime endTime country postalCode fuzzy) =
      (if snd (findExactMatches st (toUpperCase (trim country)) (trim postalCode)) = [] \<and> fuzzy
       then FindExact (toUpperCase (trim country)) (trim postalCode)
            # FindFuzzy (toUpperCase (trim country)) (trim postalCode)
            # fst (partialPostalCodeSearch st (toUpperCase (trim country)) (trim postalCode))
            @ [FindByPlace (toUpperCase (trim country)) (trim postalCode)]
       else [FindExact (toUpperCase (trim country)) (trim postalCode)])"
  using assms
  by (simp add: searchPostalCode_def Let_def split_beta findFuzzyMatches_eq strategyCalls_def
      strategies_def findExactMatches_def fuzzyPostalCodeSearch_def placeNameSearch_def)

text \<open>
  C6, as the code has it. The prefix-shrinking strategy runs in every fuzzy
  aggregation, that is, whenever the query passed validation, the exact strategy found
  no row and fuzzy matching is enabled; it runs right after the fuzzy-pattern query,
  whatever that query returned. When it runs, it queries the prefixes of the postal code
  of lengths \<open>length - 1\<close> down to \<open>max(2, floor(0.6 * length))\<close>, longest first, with
  the fuzzy-pattern statement; it returns the rows of the queries it made, concatenated,
  or no row when one of them was rejected; it stops before the shortest length only when
  a query was rejected or the rows held have reached 20, and it goes on to a further
  length only while they are fewer than 20.
\<close>

theorem prefix_shrinking_behaviour:
  "(country \<noteq> [] \<and> postalCode \<noteq> [] \<longrightarrow>
      fst (searchPostalCode st startTime endTime country postalCode fuzzy) =
        (if snd (findExactMatches st (toUpperCase (trim country)) (trim postalCode)) = [] \<and> fuzzy
         then FindExact (toUpperCase (trim country)) (trim postalCode)
              # FindFuzzy (toUpperCase (trim country)) (trim postalCode)
              # fst (partialPostalCodeSearch st (toUpperCase (trim country)) (trim postalCode))
              @ [FindByPlace (toUpperCase (trim country)) (trim postalCode)]
         else [FindExact (toUpperCase (trim country)) (trim postalCode)]))
   \<and> (let lens = shrinkLengths pc;
           k = length (fst (partialPostalCodeSearch st cc pc));
           ran = take k lens
       in k \<le> length lens
          \<and> fst (partialPostalCodeSearch st cc pc) = map (prefixQuery cc pc) ran
          \<and> ((\<forall>len \<in> set ran. prefixRows st cc pc len \<noteq> None) \<longrightarrow>
                snd (partialPostalCodeSearch st cc pc) = fetched st cc pc ran)
          \<and> ((\<exists>len \<in> set ran. prefixRows st cc pc len = None) \<longrightarrow>
                snd (partialPostalCodeSearch st cc pc) = [])
          \<and> (k < length lens \<longrightarrow>
                (\<exists>len \<in> set ran. prefixRows st cc pc len = None)
                \<or> maxResults \<le> length (fetched st cc pc ran))
          \<and> (\<forall>j < k. length (fetched st cc pc (take j lens)) < maxResults))"
proof (intro conjI)
  show "country \<noteq> [] \<and> postalCode \<noteq> [] \<longrightarrow>
      fst (searchPostalCode st startTime endTime country postalCode fuzzy) =
        (if snd (findExactMatches st (toUpperCase (trim country)) (trim postalCode)) = [] \<and> fuzzy
         then FindExact (toUpperCase (trim country)) (trim postalCode)
              # FindFuzzy (toUpperCase (trim country)) (trim postalCode)
              # fst (partialPostalCodeSearch st (toUpperCase (trim country)) (trim postalCode))
              @ [FindByPlace (toUpperCase (trim country)) (trim postalCode)]
         else [FindExact (toUpperCase (trim country)) (trim postalCode)])"
    using searchPostalCode_calls by blast
  obtain calls r where loop:
    "partialLoop st cc pc (max 2 \<lfloor>real (length pc) * 0.6\<rfloor>) (int (length pc) - 1) []
       = (calls, r)"
    by (cases "partialLoop st cc pc (max 2 \<lfloor>real (length pc) * 0.6\<rfloor>)
                 (int (length pc) - 1) []")
  then have out: "partialPostalCodeSearch st cc pc =
      (calls, case r of Some rows \<Rightarrow> rows | None \<Rightarrow> [])"
    by (simp add: partialPostalCodeSearch_def Let_def)
  from partialPostalCodeSearch_shrinkRun [of st cc pc] loop
  have run: "shrinkRun st cc pc (shrinkLengths pc) [] (calls, r)" by simp
  show "let lens = shrinkLengths pc;
           k = length (fst (partialPostalCodeSearch st cc pc));
           ran = take k lens
       in k \<le> length lens
          \<and> fst (partialPostalCodeSearch st cc pc) = map (prefixQuery cc pc) ran
          \<and> ((\<forall>len \<in> set ran. prefixRows st cc pc len \<noteq> None) \<longrightarrow>
                snd (partialPostalCodeSearch st cc pc) = fetched st cc pc ran)
          \<and> ((\<exists>len \<in> set ran. prefixRows st cc pc len = None) \<longrightarrow>
                snd (partialPostalCodeSearch st cc pc) = [])
          \<and> (k < length lens \<longrightarrow>
                (\<exists>len \<in> set ran. prefixRows st cc pc len = None)
                \<or> maxResults \<le> length (fetched st cc pc ran))
          \<and> (\<forall>j < k. length (fetched st cc pc (take j lens)) < maxResults)"
    using run unfolding out shrinkRun_def Let_def fst_conv snd_conv
    by (auto split: option.splits)
qed

lemma shrinkLengths_zip: "shrinkLengths ''90210'' = [4, 3]"
  by (simp add: shrinkLengths_def floor_six_tenths upto_rec1)

lemma partial_busy:
  "partialPostalCodeSearch busyStore ''US'' ''90210'' =
     ([FindFuzzy ''US'' ''9021''], replicate 20 beverlyHills)"
  by (simp add: partialPostalCodeSearch_def floor_six_tenths busyStore_def maxResults_def Let_def)

text \<open>
  C6, witness: \<open>("US", "90210")\<close> on the store whose answer to the prefix \<open>9021\<close> holds
  20 rows. The lengths to try are \<open>4\<close> and \<open>3\<close>; the strategy queries \<open>9021\<close>, holds 20
  rows and stops without querying \<open>902\<close>.
\<close>

theorem prefix_shrinking_behaviour_witness:
  "fst (searchPostalCode busyStore 0 3 ''US'' ''90210'' True) =
     [FindExact ''US'' ''90210'', FindFuzzy ''US'' ''90210'', FindFuzzy ''US'' ''9021'',
      FindByPlace ''US'' ''90210'']
   \<and> shrinkLengths ''90210'' = [4, 3]
   \<and> prefixRows busyStore ''US'' ''90210'' 4 = Some (replicate 20 beverlyHills)
   \<and> snd (partialPostalCodeSearch busyStore ''US'' ''90210'')
       = fetched busyStore ''US'' ''90210'' [4]
   \<and> maxResults \<le> length (fetched busyStore ''US'' ''90210'' [4])"
proof -
  have exact: "snd (findExactMatches busyStore ''US'' ''90210'') = []"
    by (simp add: findExactMatches_def busyStore_def)
  have rows: "prefixRows busyStore ''US'' ''90210'' 4 = Some (replicate 20 beverlyHills)"
    by (simp add: prefixRows_def busyStore_def)
  from prefix_shrinking_behaviour [of "''US''" "''90210''" busyStore 0 3 True "''90210''" "''US''"]
  show ?thesis
    by (simp add: trim_plain toUpperCase_US exact rows partial_busy shrinkLengths_zip Let_def)
qed

lemma partial_zip_9021:
  "partialPostalCodeSearch zipStore ''US'' ''9021'' =
     ([FindFuzzy ''US'' ''902'', FindFuzzy ''US'' ''90''], [])"
  by (simp add: partialPostalCodeSearch_def floor_six_tenths zipStore_def maxResults_def Let_def)

text \<open>
  C6, as the specification states it (prefix shrinking is invoked only when the
  fuzzy-pattern strategy fails to satisfy the caller), fails: for \<open>("US", "9021")\<close> the
  fuzzy-pattern query returns the row \<open>90210\<close>, whose score \<open>1.0\<close> clears the
  threshold, and the prefixes \<open>902\<close> and \<open>90\<close> are queried all the same.
\<close>

theorem prefix_shrinking_runs_after_fuzzy_hit:
  "snd (fuzzyPostalCodeSearch zipStore ''US'' ''9021'') = [beverlyHills]
   \<and> 0.5 \<le> calculateSimilarity ''9021'' (postal_code beverlyHills)
   \<and> fst (searchPostalCode zipStore 0 3 ''US'' ''9021'' True) =
       [FindExact ''US'' ''9021'', FindFuzzy ''US'' ''9021'', FindFuzzy ''US'' ''902'',
        FindFuzzy ''US'' ''90'', FindByPlace ''US'' ''9021'']"
proof -
  have "snd (findExactMatches zipStore ''US'' ''9021'') = []"
    by (simp add: findExactMatches_def zipStore_def)
  then have "fst (searchPostalCode zipStore 0 3 ''US'' ''9021'' True) =
       [FindExact ''US'' ''9021'', FindFuzzy ''US'' ''9021'', FindFuzzy ''US'' ''902'',
        FindFuzzy ''US'' ''90'', FindByPlace ''US'' ''9021'']"
    by (simp add: searchPostalCode_calls trim_plain toUpperCase_US partial_zip_9021)
  moreover have "snd (fuzzyPostalCodeSearch zipStore ''US'' ''9021'') = [beverlyHills]"
    by (simp add: fuzzyPostalCodeSearch_def zipStore_def)
  moreover have "0.5 \<le> calculateSimilarity ''9021'' (postal_code beverlyHills)"
    by (simp add: beverlyHills_def usRow_def score_9021_90210)
  ultimately show ?thesis by blast
qed

end
